theory Spec2Isabelle
  imports Main
begin

section \<open>Values, errors and the outside world\<close>

text \<open>
  The Terraform plugin of Garden (\<^verbatim>\<open>plugins/terraform/common.ts\<close> and
  \<^verbatim>\<open>plugins/terraform/commands.ts\<close>) drives the \<^verbatim>\<open>terraform\<close> binary. Its functions
  are asynchronous and effectful; they are modelled as functions from a world to a
  result and a new world. A thrown error (a rejected promise) is \<open>Inl\<close>, a returned value
  is \<open>Inr\<close>; the world that comes with an \<open>Inl\<close> holds the effects done before the throw.
\<close>

text \<open>JavaScript values, as far as the plugin looks at them or passes them on.\<close>

datatype jsval =
    JUndefined
  | JNull
  | JBool bool
  | JNum int
  | JStr string
  | JArr "jsval list"
  | JObj "(string \<times> jsval) list"

text \<open>An object used as a map: its entries, in the order of \<^verbatim>\<open>Object.entries\<close>.\<close>

type_synonym PrimitiveMap = "(string \<times> jsval) list"

text \<open>
  The decoded body of \<^verbatim>\<open>terraform validate -json\<close>. The field \<open>valid\<close> is kept as a
  JavaScript value, since the code compares it with \<^verbatim>\<open>===\<close> against the boolean
  \<^verbatim>\<open>false\<close> in one place and against the string \<^verbatim>\<open>"false"\<close> in another.
\<close>

record Diagnostic =
  severity :: string
  summary :: string
  detail :: "string option"

record ValidationResult =
  valid :: jsval
  diagnostics :: "Diagnostic list"

text \<open>One entry of the decoded body of \<^verbatim>\<open>terraform output -json\<close>.\<close>

record TfOutput =
  sensitive :: bool
  output_value :: jsval

text \<open>What \<^verbatim>\<open>exec\<close> returns.\<close>

record ProcessResult =
  exitCode :: int
  stdout :: string
  stderr :: string

text \<open>
  The error classes of \<^verbatim>\<open>exceptions.ts\<close> that the plugin throws, each with its message
  and the fields of its detail object. \<open>ProcessError\<close> stands for whatever the process
  runner or the child process itself raises.
\<close>

datatype error =
    ConfigurationError string ValidationResult
  | PluginError string int string string
  | RuntimeError string string string "int option"
  | ParameterError string "(string \<times> jsval) list"
  | ProcessError string

text \<open>The events of a spawned child process, in the order in which they are emitted.\<close>

datatype proc_event =
    StdoutData string
  | StderrData string
  | ProcError error
  | Close "int option"

record ChildProcess =
  has_stdout :: bool
  has_stderr :: bool
  events :: "proc_event list"

text \<open>The parameters of one call of the process runner \<^verbatim>\<open>terraform(version)\<close>.\<close>

datatype tf_method = Json | Exec | Spawn

record tf_call =
  c_method :: tf_method
  c_version :: string
  c_args :: "string list"
  c_cwd :: string
  c_ignoreError :: bool
  c_timeout :: "nat option"

text \<open>
  The process runner (\<^verbatim>\<open>cli.ts\<close>) is a parameter: for each method, a function from the
  calls made so far and the present call to what the call returns or raises. \<open>json\<close>
  appears twice, once for each body that the plugin decodes.
\<close>

record tool =
  json_validate :: "tf_call list \<Rightarrow> tf_call \<Rightarrow> error + ValidationResult"
  json_output :: "tf_call list \<Rightarrow> tf_call \<Rightarrow> error + (string \<times> TfOutput) list"
  exec :: "tf_call list \<Rightarrow> tf_call \<Rightarrow> error + ProcessResult"
  spawn :: "tf_call list \<Rightarrow> tf_call \<Rightarrow> error + ChildProcess"

text \<open>
  Library functions that the plugin calls and that are parameters as well:
  \<^verbatim>\<open>path.resolve\<close>, \<^verbatim>\<open>JSON.stringify\<close>, lodash's \<^verbatim>\<open>startCase\<close>, the template tags
  \<^verbatim>\<open>dedent\<close> and \<^verbatim>\<open>deline\<close> (given the literal parts and the interpolated values of the
  template) and \<^verbatim>\<open>chalk\<close> (given the chain of styles and the text).
\<close>

record lib =
  resolve :: "string \<Rightarrow> string \<Rightarrow> string"
  stringify :: "PrimitiveMap \<Rightarrow> string"
  startCase :: "string \<Rightarrow> string"
  dedent :: "string list \<Rightarrow> string list \<Rightarrow> string"
  deline :: "string list \<Rightarrow> string list \<Rightarrow> string"
  chalk :: "string list \<Rightarrow> string \<Rightarrow> string"

text \<open>What the logger is told.\<close>

datatype log_event =
    LogDebug string
  | LogVerbose string string string
  | LogInfo string
  | SetSuccess string bool
  | SetError
  | SetWarn string
  | LogWarn string string

text \<open>
  The world: the calls of the process runner, the files written (path and content) and
  the log, each in the order of time.
\<close>

record world =
  calls :: "tf_call list"
  writes :: "(string \<times> string) list"
  logs :: "log_event list"

definition writeFile :: "string \<Rightarrow> string \<Rightarrow> world \<Rightarrow> world" where
  "writeFile path content w = w\<lparr>writes := writes w @ [(path, content)]\<rparr>"

definition log_emit :: "log_event \<Rightarrow> world \<Rightarrow> world" where
  "log_emit e w = w\<lparr>logs := logs w @ [e]\<rparr>"

definition terraform_json_validate ::
  "tool \<Rightarrow> tf_call \<Rightarrow> world \<Rightarrow> (error + ValidationResult) \<times> world" where
  "terraform_json_validate t c w = (json_validate t (calls w) c, w\<lparr>calls := calls w @ [c]\<rparr>)"

definition terraform_json_output ::
  "tool \<Rightarrow> tf_call \<Rightarrow> world \<Rightarrow> (error + (string \<times> TfOutput) list) \<times> world" where
  "terraform_json_output t c w = (json_output t (calls w) c, w\<lparr>calls := calls w @ [c]\<rparr>)"

definition terraform_exec ::
  "tool \<Rightarrow> tf_call \<Rightarrow> world \<Rightarrow> (error + ProcessResult) \<times> world" where
  "terraform_exec t c w = (exec t (calls w) c, w\<lparr>calls := calls w @ [c]\<rparr>)"

definition terraform_spawn ::
  "tool \<Rightarrow> tf_call \<Rightarrow> world \<Rightarrow> (error + ChildProcess) \<times> world" where
  "terraform_spawn t c w = (spawn t (calls w) c, w\<lparr>calls := calls w @ [c]\<rparr>)"

section \<open>Strings\<close>

text \<open>\<^verbatim>\<open>Array.prototype.join\<close> on an array of strings.\<close>

fun join :: "string \<Rightarrow> string list \<Rightarrow> string" where
  "join sep [] = []"
| "join sep [x] = x"
| "join sep (x # y # ys) = x @ sep @ join sep (y # ys)"

text \<open>A number in a template literal: its decimal digits.\<close>

fun string_of_nat :: "nat \<Rightarrow> string" where
  "string_of_nat n =
     (if n < 10 then [''0123456789'' ! n]
      else string_of_nat (n div 10) @ [''0123456789'' ! (n mod 10)])"

declare string_of_nat.simps [simp del]

definition string_of_int :: "int \<Rightarrow> string" where
  "string_of_int i = (if i < 0 then ''-'' @ string_of_nat (nat (- i)) else string_of_nat (nat i))"

section \<open>common.ts\<close>

definition noAutoApplyMsg :: "lib \<Rightarrow> string \<Rightarrow> string" where
  "noAutoApplyMsg L command =
     chalk L [''yellow'']
       (deline L
          [''\<newline>    Terraform stack is not up-to-date and '',
           '' is not enabled. Please run\<newline>    '',
           '' to make sure the stack is in the intended state.\<newline>  '']
          [chalk L [''underline''] ''autoApply'',
           chalk L [''white'', ''bold''] (''garden plugins terraform '' @ command)])"

text \<open>
  \<^verbatim>\<open>prepareVariables(targetDir, variables?)\<close>: \<open>None\<close> is an undefined or absent
  argument, which \<^verbatim>\<open>variables || {}\<close> turns into the empty object.
\<close>

definition prepareVariables ::
  "lib \<Rightarrow> string \<Rightarrow> PrimitiveMap option \<Rightarrow> world \<Rightarrow> string list \<times> world" where
  "prepareVariables L targetDir variables w =
     (if length (case variables of None \<Rightarrow> [] | Some vs \<Rightarrow> vs) = 0 then ([], w)
      else
        let path = resolve L targetDir ''garden.tfvars.json'';
            w' = writeFile path (stringify L (the variables)) w
        in ([''-var-file'', path], w'))"

definition tfValidationError :: "lib \<Rightarrow> ValidationResult \<Rightarrow> error" where
  "tfValidationError L result =
     (let errors = map (\<lambda>d. startCase L (severity d) @ '': '' @ summary d @ ''\<newline>'' @
                              (case detail d of None \<Rightarrow> '''' | Some s \<Rightarrow> s))
                       (diagnostics result)
      in ConfigurationError
           (dedent L [''Failed validating Terraform configuration:\<newline>\<newline>'', '''']
                     [join ''\<newline>'' errors])
           result)"

definition validateCall :: "string \<Rightarrow> string \<Rightarrow> string list \<Rightarrow> tf_call" where
  "validateCall tfVersion root varArgs =
     \<lparr>c_method = Json, c_version = tfVersion, c_args = [''validate'', ''-json''] @ varArgs,
      c_cwd = root, c_ignoreError = True, c_timeout = None\<rparr>"

definition initCall :: "string \<Rightarrow> string \<Rightarrow> tf_call" where
  "initCall tfVersion root =
     \<lparr>c_method = Exec, c_version = tfVersion, c_args = [''init''],
      c_cwd = root, c_ignoreError = False, c_timeout = Some 300\<rparr>"

definition tfValidate ::
  "lib \<Rightarrow> tool \<Rightarrow> string \<Rightarrow> string \<Rightarrow> PrimitiveMap option \<Rightarrow> world \<Rightarrow> (error + unit) \<times> world" where
  "tfValidate L T tfVersion root variables w0 =
     (case prepareVariables L root variables w0 of (varArgs, w1) \<Rightarrow>
      let args = validateCall tfVersion root varArgs in
      (case terraform_json_validate T args w1 of
         (Inl e, w2) \<Rightarrow> (Inl e, w2)
       | (Inr res, w2) \<Rightarrow>
           if valid res = JBool False then
             let reasons = map summary (diagnostics res) in
             if ''Could not satisfy plugin requirements'' \<in> set reasons
                \<or> ''Module not installed'' \<in> set reasons
             then
               let w3 = log_emit (LogDebug ''Initializing Terraform'') w2 in
               (case terraform_exec T (initCall tfVersion root) w3 of
                  (Inl e, w4) \<Rightarrow> (Inl e, w4)
                | (Inr _, w4) \<Rightarrow>
                    (case terraform_json_validate T args w4 of
                       (Inl e, w5) \<Rightarrow> (Inl e, w5)
                     | (Inr retryRes, w5) \<Rightarrow>
                         if valid retryRes = JStr ''false''
                         then (Inl (tfValidationError L retryRes), w5)
                         else (Inr (), w5)))
             else (Inl (tfValidationError L res), w2)
           else (Inr (), w2)))"

text \<open>\<^verbatim>\<open>mapValues(res, (v) => v.value)\<close> on the decoded body of \<^verbatim>\<open>output -json\<close>.\<close>

definition outputCall :: "string \<Rightarrow> string \<Rightarrow> tf_call" where
  "outputCall terraformVersion workingDir =
     \<lparr>c_method = Json, c_version = terraformVersion, c_args = [''output'', ''-json''],
      c_cwd = workingDir, c_ignoreError = False, c_timeout = None\<rparr>"

definition getTfOutputs ::
  "tool \<Rightarrow> string \<Rightarrow> string \<Rightarrow> world \<Rightarrow> (error + PrimitiveMap) \<times> world" where
  "getTfOutputs T terraformVersion workingDir w =
     (case terraform_json_output T (outputCall terraformVersion workingDir) w of
        (Inl e, w') \<Rightarrow> (Inl e, w')
      | (Inr res, w') \<Rightarrow> (Inr (map (\<lambda>(k, v). (k, output_value v)) res), w'))"

record StackStatus =
  ready :: bool
  outputs :: PrimitiveMap

definition planCall :: "string \<Rightarrow> string \<Rightarrow> string list \<Rightarrow> tf_call" where
  "planCall tfVersion root varArgs =
     \<lparr>c_method = Exec, c_version = tfVersion,
      c_args = [''plan'', ''-detailed-exitcode'', ''-input=false'', ''-refresh=false'',
                ''-lock=false''] @ varArgs,
      c_cwd = root, c_ignoreError = True, c_timeout = None\<rparr>"

text \<open>
  \<^verbatim>\<open>getStackStatus({ log, provider, applyCommand, autoApply, root, variables })\<close>, with
  \<open>tfVersion\<close> for \<^verbatim>\<open>provider.config.version\<close>.
\<close>

definition getStackStatus ::
  "lib \<Rightarrow> tool \<Rightarrow> string \<Rightarrow> string \<Rightarrow> bool \<Rightarrow> string \<Rightarrow> PrimitiveMap option \<Rightarrow> world
     \<Rightarrow> (error + StackStatus) \<times> world" where
  "getStackStatus L T tfVersion applyCommand autoApply root variables w0 =
     (case tfValidate L T tfVersion root variables w0 of
        (Inl e, w1) \<Rightarrow> (Inl e, w1)
      | (Inr _, w1) \<Rightarrow>
          let w2 = log_emit (LogVerbose ''terraform'' ''Running plan...'' ''active'') w1 in
          (case prepareVariables L root variables w2 of (varArgs, w3) \<Rightarrow>
           (case terraform_exec T (planCall tfVersion root varArgs) w3 of
              (Inl e, w4) \<Rightarrow> (Inl e, w4)
            | (Inr plan, w4) \<Rightarrow>
                if exitCode plan = 0 then
                  (case getTfOutputs T tfVersion root w4 of
                     (Inl e, w5) \<Rightarrow> (Inl e, w5)
                   | (Inr outs, w5) \<Rightarrow>
                       (Inr \<lparr>ready = True, outputs = outs\<rparr>,
                        log_emit (SetSuccess (chalk L [''green''] ''Stack up-to-date'') True) w5))
                else if exitCode plan = 1 then
                  (Inr \<lparr>ready = False, outputs = []\<rparr>, log_emit SetError w4)
                else if exitCode plan = 2 then
                  let w5 = log_emit (SetWarn ''Not up-to-date'') w4 in
                  if autoApply then (Inr \<lparr>ready = False, outputs = []\<rparr>, w5)
                  else
                    let w6 = log_emit (LogWarn ''warning'' (noAutoApplyMsg L applyCommand)) w5 in
                    (case getTfOutputs T tfVersion root w6 of
                       (Inl e, w7) \<Rightarrow> (Inl e, w7)
                     | (Inr outs, w7) \<Rightarrow> (Inr \<lparr>ready = True, outputs = outs\<rparr>, w7))
                else
                  (Inl (PluginError
                          (''Unexpected exit code from `terraform plan`: ''
                             @ string_of_int (exitCode plan))
                          (exitCode plan) (stderr plan) (stdout plan)),
                   log_emit SetError w4))))"

text \<open>
  The promise at the end of \<open>applyStack\<close>: it is settled by the first \<^verbatim>\<open>error\<close> or
  \<^verbatim>\<open>close\<close> event of the process, and what comes after has no effect on it. Until then
  the \<^verbatim>\<open>data\<close> listeners, installed only on a stream that exists, append each chunk to
  \<open>out\<close> or \<open>err\<close>. \<open>None\<close> is a promise that is never settled.
\<close>

fun applyStack_promise ::
  "bool \<Rightarrow> bool \<Rightarrow> string \<Rightarrow> string \<Rightarrow> proc_event list \<Rightarrow> (error + unit) option" where
  "applyStack_promise so se out err [] = None"
| "applyStack_promise so se out err (StdoutData d # es) =
     applyStack_promise so se (if so then out @ d else out) err es"
| "applyStack_promise so se out err (StderrData d # es) =
     applyStack_promise so se out (if se then err @ d else err) es"
| "applyStack_promise so se out err (ProcError e # es) = Some (Inl e)"
| "applyStack_promise so se out err (Close code # es) =
     (if code = Some 0 then Some (Inr ())
      else Some (Inl (RuntimeError (''Error when applying Terraform stack:\<newline>'' @ err)
                        out err code)))"

definition applyCall :: "string \<Rightarrow> string \<Rightarrow> string list \<Rightarrow> tf_call" where
  "applyCall version root varArgs =
     \<lparr>c_method = Spawn, c_version = version,
      c_args = [''apply'', ''-auto-approve'', ''-input=false''] @ varArgs,
      c_cwd = root, c_ignoreError = False, c_timeout = None\<rparr>"

text \<open>
  \<^verbatim>\<open>applyStack({ log, root, variables, version })\<close>. The status line fed by the
  line splitter shows progress only and is left out; the first log line starts with
  the three bytes of a right arrow.
\<close>

definition applyStack ::
  "lib \<Rightarrow> tool \<Rightarrow> string \<Rightarrow> PrimitiveMap option \<Rightarrow> string \<Rightarrow> world
     \<Rightarrow> (error + unit) option \<times> world" where
  "applyStack L T root variables version w0 =
     (case prepareVariables L root variables w0 of (varArgs, w1) \<Rightarrow>
      (case terraform_spawn T (applyCall version root varArgs) w1 of
         (Inl e, w2) \<Rightarrow> (Some (Inl e), w2)
       | (Inr proc, w2) \<Rightarrow>
           let w3 = log_emit
                      (LogInfo ([CHR 0xE2, CHR 0x86, CHR 0x92] @ '' Applying Terraform stack...''))
                      w2
           in (applyStack_promise (has_stdout proc) (has_stderr proc) '''' '''' (events proc),
               w3)))"

section \<open>commands.ts\<close>

record Module =
  m_name :: string
  m_type :: string
  compatibleTypes :: "string list"

text \<open>
  Modelled from the spec: \<^verbatim>\<open>findByName\<close> of \<^verbatim>\<open>util/util\<close> is not among the sources.
  The spec speaks of a first argument "naming a module" and of "an unknown name": the
  function returns the first module of the list that has the name, and nothing
  (\<^verbatim>\<open>undefined\<close>) when no module has it.
\<close>

definition findByName :: "Module list \<Rightarrow> string \<Rightarrow> Module option" where
  "findByName modules n = find (\<lambda>m. m_name m = n) modules"

text \<open>
  \<^verbatim>\<open>findModule(modules, name)\<close>, where \<open>name\<close> is \<^verbatim>\<open>args[0]\<close>: \<open>None\<close> when there is
  no first argument. \<^verbatim>\<open>!name\<close> holds of \<^verbatim>\<open>undefined\<close> and of the empty string.
\<close>

definition findModule :: "lib \<Rightarrow> Module list \<Rightarrow> string option \<Rightarrow> error + Module" where
  "findModule L modules name =
     (if name = None \<or> name = Some '''' then
        Inl (ParameterError ''The first command argument must be a module name.''
               [(''name'', case name of None \<Rightarrow> JUndefined | Some s \<Rightarrow> JStr s)])
      else
        let n = the name in
        (case findByName modules n of
           None \<Rightarrow>
             Inl (ParameterError
                    (chalk L [''red''] (''Could not find module '' @ chalk L [''white''] n @ ''.''))
                    [])
         | Some module \<Rightarrow>
             if ''terraform'' \<notin> set (compatibleTypes module) then
               Inl (ParameterError
                      (chalk L [''red'']
                         (''Module '' @ chalk L [''white''] n @ '' is not a terraform module.''))
                      [(''name'', JStr n), (''type'', JStr (m_type module)),
                       (''compatibleTypes'', JArr (map JStr (compatibleTypes module)))])
             else Inr module))"

section \<open>Notions used in the statements\<close>


text \<open>
  The \<^verbatim>\<open>data\<close> events of a child process, and what its two streams have emitted in a
  run of events: the chunks of each stream, one after the other.
\<close>

fun is_data :: "proc_event \<Rightarrow> bool" where
  "is_data (StdoutData d) = True"
| "is_data (StderrData d) = True"
| "is_data (ProcError e) = False"
| "is_data (Close code) = False"

fun stdout_chunks :: "proc_event list \<Rightarrow> string" where
  "stdout_chunks [] = []"
| "stdout_chunks (StdoutData d # es) = d @ stdout_chunks es"
| "stdout_chunks (e # es) = stdout_chunks es"

fun stderr_chunks :: "proc_event list \<Rightarrow> string" where
  "stderr_chunks [] = []"
| "stderr_chunks (StderrData d # es) = d @ stderr_chunks es"
| "stderr_chunks (e # es) = stderr_chunks es"

section \<open>Example inputs\<close>

text \<open>
  Stand-ins for the library functions: paths joined by a slash, an object printed as
  the list of its keys, template tags that only interpolate, and no colours.
\<close>

fun interpolate :: "string list \<Rightarrow> string list \<Rightarrow> string" where
  "interpolate (s # ss) (v # vs) = s @ v @ interpolate ss vs"
| "interpolate ss [] = concat ss"
| "interpolate [] vs = concat vs"

definition example_lib :: lib where
  "example_lib =
     \<lparr>resolve = (\<lambda>d f. d @ ''/'' @ f),
      stringify = (\<lambda>vs. ''{'' @ join '','' (map fst vs) @ ''}''),
      startCase = (\<lambda>s. if s = ''error'' then ''Error'' else s),
      dedent = interpolate,
      deline = interpolate,
      chalk = (\<lambda>styles s. s)\<rparr>"

definition empty_world :: world where
  "empty_world = \<lparr>calls = [], writes = [], logs = []\<rparr>"

text \<open>A stack whose modules are not installed, and stay so after \<^verbatim>\<open>terraform init\<close>.\<close>

definition module_not_installed :: ValidationResult where
  "module_not_installed =
     \<lparr>valid = JBool False,
      diagnostics =
        [\<lparr>severity = ''error'', summary = ''Module not installed'', detail = None\<rparr>]\<rparr>"

definition tool_not_installed :: tool where
  "tool_not_installed =
     \<lparr>json_validate = (\<lambda>h c. Inr module_not_installed),
      json_output = (\<lambda>h c. Inr []),
      exec = (\<lambda>h c. Inr \<lparr>exitCode = 0, stdout = '''', stderr = ''''\<rparr>),
      spawn = (\<lambda>h c. Inl (ProcessError ''spawn''))\<rparr>"



text \<open>A valid stack with two outputs, whose plan ends with the given exit code.\<close>

definition tool_plan :: "int \<Rightarrow> tool" where
  "tool_plan code =
     \<lparr>json_validate = (\<lambda>h c. Inr \<lparr>valid = JBool True, diagnostics = []\<rparr>),
      json_output = (\<lambda>h c. Inr [(''x'', \<lparr>sensitive = False, output_value = JNum 1\<rparr>),
                                (''y'', \<lparr>sensitive = False, output_value = JStr ''s''\<rparr>)]),
      exec = (\<lambda>h c. Inr \<lparr>exitCode = code, stdout = ''out'', stderr = ''err''\<rparr>),
      spawn = (\<lambda>h c. Inl (ProcessError ''spawn''))\<rparr>"

text \<open>An apply that writes to both streams and closes with the given code.\<close>

definition example_proc :: "int option \<Rightarrow> ChildProcess" where
  "example_proc code =
     \<lparr>has_stdout = True, has_stderr = True,
      events = [StdoutData ''Plan: 1 to add'', StderrData ''Error: '', StdoutData ''.'',
                StderrData ''denied'', Close code, StdoutData ''late'']\<rparr>"

definition tool_apply :: "int option \<Rightarrow> tool" where
  "tool_apply code =
     \<lparr>json_validate = (\<lambda>h c. Inr \<lparr>valid = JBool True, diagnostics = []\<rparr>),
      json_output = (\<lambda>h c. Inr []),
      exec = (\<lambda>h c. Inr \<lparr>exitCode = 0, stdout = '''', stderr = ''''\<rparr>),
      spawn = (\<lambda>h c. Inr (example_proc code))\<rparr>"

definition example_modules :: "Module list" where
  "example_modules =
     [\<lparr>m_name = ''tf'', m_type = ''terraform'', compatibleTypes = [''terraform'']\<rparr>,
      \<lparr>m_name = ''web'', m_type = ''container'', compatibleTypes = [''container'']\<rparr>]"

section \<open>Facts about the model\<close>

lemma calls_prepareVariables [simp]:
  "calls (snd (prepareVariables L root variables w)) = calls w"
  by (simp add: prepareVariables_def writeFile_def Let_def)

lemma logs_prepareVariables [simp]:
  "logs (snd (prepareVariables L root variables w)) = logs w"
  by (simp add: prepareVariables_def writeFile_def Let_def)

text \<open>The arguments that \<open>prepareVariables\<close> returns do not depend on the world.\<close>

lemma fst_prepareVariables_eq:
  "fst (prepareVariables L root variables w) =
     (if (case variables of None \<Rightarrow> [] | Some vs \<Rightarrow> vs) = [] then []
      else [''-var-file'', resolve L root ''garden.tfvars.json''])"
  by (simp add: prepareVariables_def Let_def)


lemma recoverable_iff:
  "(''Could not satisfy plugin requirements'' \<in> set (map summary ds)
      \<or> ''Module not installed'' \<in> set (map summary ds))
   \<longleftrightarrow> (\<exists>d\<in>set ds. summary d = ''Could not satisfy plugin requirements''
                       \<or> summary d = ''Module not installed'')"
  by (simp add: image_iff) metis

text \<open>
  \<open>tfValidate\<close> once the first validation has returned a body with \<^verbatim>\<open>valid: false\<close>.
\<close>

lemma tfValidate_first_call:
  assumes "json_validate T (calls w0)
             (validateCall tfVersion root (fst (prepareVariables L root variables w0))) = Inr res"
    and "valid res = JBool False"
  shows "tfValidate L T tfVersion root variables w0 =
     (let w1 = snd (prepareVariables L root variables w0);
          args = validateCall tfVersion root (fst (prepareVariables L root variables w0));
          w2 = w1\<lparr>calls := calls w0 @ [args]\<rparr>
      in if ''Could not satisfy plugin requirements'' \<in> set (map summary (diagnostics res))
            \<or> ''Module not installed'' \<in> set (map summary (diagnostics res))
         then
           let w3 = log_emit (LogDebug ''Initializing Terraform'') w2 in
           (case exec T (calls w0 @ [args]) (initCall tfVersion root) of
              Inl e \<Rightarrow> (Inl e, w3\<lparr>calls := calls w0 @ [args, initCall tfVersion root]\<rparr>)
            | Inr r \<Rightarrow>
                (case json_validate T (calls w0 @ [args, initCall tfVersion root]) args of
                   Inl e \<Rightarrow> (Inl e, w3\<lparr>calls := calls w0 @ [args, initCall tfVersion root, args]\<rparr>)
                 | Inr retryRes \<Rightarrow>
                     (if valid retryRes = JStr ''false'' then Inl (tfValidationError L retryRes)
                      else Inr (),
                      w3\<lparr>calls := calls w0 @ [args, initCall tfVersion root, args]\<rparr>)))
         else (Inl (tfValidationError L res), w2))"
  by (simp add: tfValidate_def case_prod_beta terraform_json_validate_def assms
        terraform_exec_def log_emit_def Let_def split: sum.split)

lemma tfValidate_calls:
  assumes "json_validate T (calls w0)
             (validateCall tfVersion root (fst (prepareVariables L root variables w0))) = Inr res"
    and "valid res = JBool False"
  shows "calls (snd (tfValidate L T tfVersion root variables w0)) =
     calls w0 @
     (let args = validateCall tfVersion root (fst (prepareVariables L root variables w0)) in
      if (\<exists>d\<in>set (diagnostics res). summary d = ''Could not satisfy plugin requirements''
                \<or> summary d = ''Module not installed'')
      then (case exec T (calls w0 @ [args]) (initCall tfVersion root) of
              Inl e \<Rightarrow> [args, initCall tfVersion root]
            | Inr r \<Rightarrow> [args, initCall tfVersion root, args])
      else [args])"
  unfolding tfValidate_first_call [OF assms] recoverable_iff
  by (simp add: Let_def log_emit_def split: sum.split)

text \<open>
  The retried validation never makes \<open>tfValidate\<close> fail when its body says
  \<^verbatim>\<open>valid: false\<close> with the boolean: the comparison is with the string.
\<close>

lemma tfValidate_retry_boolean_false:
  assumes "json_validate T (calls w0)
             (validateCall tfVersion root (fst (prepareVariables L root variables w0))) = Inr res"
    and "valid res = JBool False"
    and "\<exists>d\<in>set (diagnostics res). summary d = ''Could not satisfy plugin requirements''
            \<or> summary d = ''Module not installed''"
    and "exec T (calls w0 @ [validateCall tfVersion root (fst (prepareVariables L root variables w0))])
           (initCall tfVersion root) = Inr r"
    and "json_validate T
           (calls w0 @ [validateCall tfVersion root (fst (prepareVariables L root variables w0)),
                        initCall tfVersion root])
           (validateCall tfVersion root (fst (prepareVariables L root variables w0))) = Inr retryRes"
    and "valid retryRes = JBool False"
  shows "fst (tfValidate L T tfVersion root variables w0) = Inr ()"
  unfolding tfValidate_first_call [OF assms(1,2)] recoverable_iff
  using assms(3-6) by (simp add: Let_def)

text \<open>
  \<open>getStackStatus\<close> once the validation has passed and the plan has returned: the
  result, the calls and the log.
\<close>

lemma getStackStatus_plan:
  assumes V: "tfValidate L T tfVersion root variables w0 = (Inr (), w1)"
    and P: "exec T (calls w1) (planCall tfVersion root (fst (prepareVariables L root variables w0)))
              = Inr plan"
  shows "fst (getStackStatus L T tfVersion applyCommand autoApply root variables w0) =
     (if exitCode plan = 0 \<or> exitCode plan = 2 \<and> \<not> autoApply then
        (case json_output T
                (calls w1 @ [planCall tfVersion root (fst (prepareVariables L root variables w0))])
                (outputCall tfVersion root) of
           Inl e \<Rightarrow> Inl e
         | Inr res \<Rightarrow> Inr \<lparr>ready = True, outputs = map (\<lambda>(k, v). (k, output_value v)) res\<rparr>)
      else if exitCode plan = 1 \<or> exitCode plan = 2 then Inr \<lparr>ready = False, outputs = []\<rparr>
      else Inl (PluginError
                  (''Unexpected exit code from `terraform plan`: '' @ string_of_int (exitCode plan))
                  (exitCode plan) (stderr plan) (stdout plan)))"
    and "calls (snd (getStackStatus L T tfVersion applyCommand autoApply root variables w0)) =
       calls w1 @ [planCall tfVersion root (fst (prepareVariables L root variables w0))]
         @ (if exitCode plan = 0 \<or> exitCode plan = 2 \<and> \<not> autoApply
            then [outputCall tfVersion root] else [])"
    and "logs (snd (getStackStatus L T tfVersion applyCommand autoApply root variables w0)) =
       logs w1 @ [LogVerbose ''terraform'' ''Running plan...'' ''active'']
         @ (if exitCode plan = 0 then
              (case json_output T
                      (calls w1 @ [planCall tfVersion root (fst (prepareVariables L root variables w0))])
                      (outputCall tfVersion root) of
                 Inl e \<Rightarrow> []
               | Inr res \<Rightarrow> [SetSuccess (chalk L [''green''] ''Stack up-to-date'') True])
            else if exitCode plan = 1 then [SetError]
            else if exitCode plan = 2 then
              SetWarn ''Not up-to-date''
                # (if autoApply then [] else [LogWarn ''warning'' (noAutoApplyMsg L applyCommand)])
            else [SetError])"
proof -
  note P' = P [unfolded fst_prepareVariables_eq]
  note defs = getStackStatus_def V case_prod_beta Let_def fst_prepareVariables_eq P'
    terraform_exec_def getTfOutputs_def terraform_json_output_def log_emit_def
  show "fst (getStackStatus L T tfVersion applyCommand autoApply root variables w0) =
     (if exitCode plan = 0 \<or> exitCode plan = 2 \<and> \<not> autoApply then
        (case json_output T
                (calls w1 @ [planCall tfVersion root (fst (prepareVariables L root variables w0))])
                (outputCall tfVersion root) of
           Inl e \<Rightarrow> Inl e
         | Inr res \<Rightarrow> Inr \<lparr>ready = True, outputs = map (\<lambda>(k, v). (k, output_value v)) res\<rparr>)
      else if exitCode plan = 1 \<or> exitCode plan = 2 then Inr \<lparr>ready = False, outputs = []\<rparr>
      else Inl (PluginError
                  (''Unexpected exit code from `terraform plan`: '' @ string_of_int (exitCode plan))
                  (exitCode plan) (stderr plan) (stdout plan)))"
    by (simp add: defs split: sum.split)
  show "calls (snd (getStackStatus L T tfVersion applyCommand autoApply root variables w0)) =
       calls w1 @ [planCall tfVersion root (fst (prepareVariables L root variables w0))]
         @ (if exitCode plan = 0 \<or> exitCode plan = 2 \<and> \<not> autoApply
            then [outputCall tfVersion root] else [])"
    by (simp add: defs split: sum.split)
  show "logs (snd (getStackStatus L T tfVersion applyCommand autoApply root variables w0)) =
       logs w1 @ [LogVerbose ''terraform'' ''Running plan...'' ''active'']
         @ (if exitCode plan = 0 then
              (case json_output T
                      (calls w1 @ [planCall tfVersion root (fst (prepareVariables L root variables w0))])
                      (outputCall tfVersion root) of
                 Inl e \<Rightarrow> []
               | Inr res \<Rightarrow> [SetSuccess (chalk L [''green''] ''Stack up-to-date'') True])
            else if exitCode plan = 1 then [SetError]
            else if exitCode plan = 2 then
              SetWarn ''Not up-to-date''
                # (if autoApply then [] else [LogWarn ''warning'' (noAutoApplyMsg L applyCommand)])
            else [SetError])"
    by (simp add: defs split: sum.split)
qed

text \<open>An error of the outputs command goes through \<open>getStackStatus\<close> as it is.\<close>

lemma getStackStatus_outputs_error:
  assumes "tfValidate L T tfVersion root variables w0 = (Inr (), w1)"
    and "exec T (calls w1) (planCall tfVersion root (fst (prepareVariables L root variables w0)))
           = Inr plan"
    and "exitCode plan = 0 \<or> exitCode plan = 2 \<and> \<not> autoApply"
    and "json_output T
           (calls w1 @ [planCall tfVersion root (fst (prepareVariables L root variables w0))])
           (outputCall tfVersion root) = Inl e"
  shows "fst (getStackStatus L T tfVersion applyCommand autoApply root variables w0) = Inl e"
  using assms(3,4) by (simp add: getStackStatus_plan(1) [OF assms(1,2)])

text \<open>
  The promise of \<open>applyStack\<close> on a run of \<^verbatim>\<open>data\<close> events followed by \<^verbatim>\<open>close\<close>.
\<close>

lemma applyStack_promise_data:
  assumes "\<forall>e\<in>set pre. is_data e"
  shows "applyStack_promise so se out err (pre @ Close code # rest) =
     (if code = Some 0 then Some (Inr ())
      else Some (Inl (RuntimeError
                        (''Error when applying Terraform stack:\<newline>''
                           @ err @ (if se then stderr_chunks pre else []))
                        (out @ (if so then stdout_chunks pre else []))
                        (err @ (if se then stderr_chunks pre else []))
                        code)))"
  using assms
proof (induction pre arbitrary: out err)
  case Nil
  then show ?case by simp
next
  case (Cons e pre)
  then have rest: "\<forall>e\<in>set pre. is_data e" and e: "is_data e" by simp_all
  show ?case
  proof (cases e)
    case (StdoutData d)
    then show ?thesis using Cons.IH [OF rest] by simp
  next
    case (StderrData d)
    then show ?thesis using Cons.IH [OF rest] by simp
  next
    case (ProcError x)
    then show ?thesis using e by simp
  next
    case (Close c)
    then show ?thesis using e by simp
  qed
qed

lemma findByName_None_iff:
  "findByName modules n = None \<longleftrightarrow> (\<forall>m\<in>set modules. m_name m \<noteq> n)"
  by (auto simp add: findByName_def find_None_iff)


lemma tfValidate_tool_plan:
  "tfValidate example_lib (tool_plan code) ''0.12.7'' ''/proj'' None empty_world =
     (Inr (), \<lparr>calls = [validateCall ''0.12.7'' ''/proj'' []], writes = [], logs = []\<rparr>)"
  by (simp add: tfValidate_def prepareVariables_def terraform_json_validate_def tool_plan_def
      empty_world_def)

lemma exec_tool_plan:
  "exec (tool_plan code) h c = Inr \<lparr>exitCode = code, stdout = ''out'', stderr = ''err''\<rparr>"
  by (simp add: tool_plan_def)

lemma json_output_tool_plan:
  "json_output (tool_plan code) h c =
     Inr [(''x'', \<lparr>sensitive = False, output_value = JNum 1\<rparr>),
          (''y'', \<lparr>sensitive = False, output_value = JStr ''s''\<rparr>)]"
  by (simp add: tool_plan_def)

section \<open>The validator\<close>

text \<open>
  C1. For a first validation that reports \<^verbatim>\<open>valid: false\<close> with the summary
  "Module not installed", the validator is to make one init call and one retried
  validate call, and to throw \<open>ConfigurationError\<close> if the retry still reports invalid.
  Here both validations report \<^verbatim>\<open>valid: false\<close> with that summary and init succeeds:
  \<open>tfValidate\<close> makes the validate call, the init call and the retried validate call,
  and then returns without an error.
\<close>

theorem tfValidate_retry_still_invalid:
  "tfValidate example_lib tool_not_installed ''0.12.7'' ''/proj'' None empty_world =
     (Inr (),
      \<lparr>calls = [validateCall ''0.12.7'' ''/proj'' [], initCall ''0.12.7'' ''/proj'',
                validateCall ''0.12.7'' ''/proj'' []],
       writes = [],
       logs = [LogDebug ''Initializing Terraform'']\<rparr>)"
  by (simp add: tfValidate_def prepareVariables_def terraform_json_validate_def terraform_exec_def
      log_emit_def tool_not_installed_def module_not_installed_def empty_world_def Let_def)

section \<open>The status of a stack\<close>

text \<open>
  C2. When the validation has passed and the plan has returned with exit code 2:
  with \<open>autoApply\<close>, \<open>getStackStatus\<close> returns \<^verbatim>\<open>{ready: false, outputs: {}}\<close> and the
  plan is the last call, so that no outputs are fetched; without \<open>autoApply\<close> it logs
  the warning of \<open>noAutoApplyMsg\<close> and, the outputs command returning a body, returns
  \<^verbatim>\<open>{ready: true, outputs}\<close> with the value of each output of that body.
\<close>

theorem getStackStatus_exit_2:
  assumes "tfValidate L T tfVersion root variables w0 = (Inr (), w1)"
    and "exec T (calls w1) (planCall tfVersion root (fst (prepareVariables L root variables w0)))
           = Inr plan"
    and "exitCode plan = 2"
  shows "(autoApply \<longrightarrow>
            fst (getStackStatus L T tfVersion applyCommand autoApply root variables w0) =
              Inr \<lparr>ready = False, outputs = []\<rparr>
            \<and> calls (snd (getStackStatus L T tfVersion applyCommand autoApply root variables w0)) =
                calls w1 @ [planCall tfVersion root (fst (prepareVariables L root variables w0))])
         \<and> (\<not> autoApply \<longrightarrow>
               (\<forall>res. json_output T
                        (calls w1 @ [planCall tfVersion root (fst (prepareVariables L root variables w0))])
                        (outputCall tfVersion root) = Inr res \<longrightarrow>
                  fst (getStackStatus L T tfVersion applyCommand autoApply root variables w0) =
                    Inr \<lparr>ready = True, outputs = map (\<lambda>(k, v). (k, output_value v)) res\<rparr>)
               \<and> logs (snd (getStackStatus L T tfVersion applyCommand autoApply root variables w0)) =
                   logs w1 @ [LogVerbose ''terraform'' ''Running plan...'' ''active'',
                              SetWarn ''Not up-to-date'',
                              LogWarn ''warning'' (noAutoApplyMsg L applyCommand)])"
  using assms(3) by (simp add: getStackStatus_plan [OF assms(1,2)])

text \<open>The plan of the example ends with exit code 2, with and without \<open>autoApply\<close>.\<close>

theorem getStackStatus_exit_2_witness:
  "fst (getStackStatus example_lib (tool_plan 2) ''0.12.7'' ''apply-root'' True ''/proj'' None
          empty_world) =
     Inr \<lparr>ready = False, outputs = []\<rparr>
   \<and> calls (snd (getStackStatus example_lib (tool_plan 2) ''0.12.7'' ''apply-root'' True ''/proj''
                    None empty_world)) =
       [validateCall ''0.12.7'' ''/proj'' [], planCall ''0.12.7'' ''/proj'' []]
   \<and> fst (getStackStatus example_lib (tool_plan 2) ''0.12.7'' ''apply-root'' False ''/proj'' None
            empty_world) =
       Inr \<lparr>ready = True, outputs = [(''x'', JNum 1), (''y'', JStr ''s'')]\<rparr>
   \<and> logs (snd (getStackStatus example_lib (tool_plan 2) ''0.12.7'' ''apply-root'' False ''/proj''
                   None empty_world)) =
       [LogVerbose ''terraform'' ''Running plan...'' ''active'', SetWarn ''Not up-to-date'',
        LogWarn ''warning'' (noAutoApplyMsg example_lib ''apply-root'')]"
  using getStackStatus_exit_2 [where T = "tool_plan 2" and applyCommand = "''apply-root''"
        and autoApply = True, OF tfValidate_tool_plan exec_tool_plan]
    getStackStatus_exit_2 [where T = "tool_plan 2" and applyCommand = "''apply-root''"
        and autoApply = False, OF tfValidate_tool_plan exec_tool_plan]
  by (simp add: json_output_tool_plan prepareVariables_def)



text \<open>
  C4. When the validation has passed and the plan has returned: with exit code 0,
  the outputs command returning a body, \<open>getStackStatus\<close> returns
  \<^verbatim>\<open>{ready: true, outputs}\<close> with the value of each output of that body; with exit code
  1 it returns \<^verbatim>\<open>{ready: false, outputs: {}}\<close> and throws nothing.
\<close>

theorem getStackStatus_exit_0_1:
  assumes "tfValidate L T tfVersion root variables w0 = (Inr (), w1)"
    and "exec T (calls w1) (planCall tfVersion root (fst (prepareVariables L root variables w0)))
           = Inr plan"
  shows "(exitCode plan = 0 \<longrightarrow>
            (\<forall>res. json_output T
                     (calls w1 @ [planCall tfVersion root (fst (prepareVariables L root variables w0))])
                     (outputCall tfVersion root) = Inr res \<longrightarrow>
               fst (getStackStatus L T tfVersion applyCommand autoApply root variables w0) =
                 Inr \<lparr>ready = True, outputs = map (\<lambda>(k, v). (k, output_value v)) res\<rparr>))
         \<and> (exitCode plan = 1 \<longrightarrow>
               fst (getStackStatus L T tfVersion applyCommand autoApply root variables w0) =
                 Inr \<lparr>ready = False, outputs = []\<rparr>)"
  by (simp add: getStackStatus_plan(1) [OF assms])

text \<open>A plan that ends with exit code 0, and one that ends with exit code 1.\<close>

theorem getStackStatus_exit_0_1_witness:
  "fst (getStackStatus example_lib (tool_plan 0) ''0.12.7'' ''apply-root'' False ''/proj'' None
          empty_world) =
     Inr \<lparr>ready = True, outputs = [(''x'', JNum 1), (''y'', JStr ''s'')]\<rparr>
   \<and> fst (getStackStatus example_lib (tool_plan 1) ''0.12.7'' ''apply-root'' False ''/proj'' None
            empty_world) =
       Inr \<lparr>ready = False, outputs = []\<rparr>"
  using getStackStatus_exit_0_1 [where T = "tool_plan 0" and applyCommand = "''apply-root''"
        and autoApply = False, OF tfValidate_tool_plan exec_tool_plan]
    getStackStatus_exit_0_1 [where T = "tool_plan 1" and applyCommand = "''apply-root''"
        and autoApply = False, OF tfValidate_tool_plan exec_tool_plan]
  by (simp add: json_output_tool_plan)

section \<open>The variable file\<close>

text \<open>
  C5. For every variable map \<open>V\<close>: \<open>prepareVariables\<close> returns the empty argument list
  and writes no file if and only if \<open>V\<close> is empty; otherwise it writes the JSON
  serialization of \<open>V\<close> to the file \<^verbatim>\<open>garden.tfvars.json\<close> resolved against the root,
  and nothing else, and returns the two arguments \<^verbatim>\<open>-var-file\<close> and that path.
\<close>

theorem prepareVariables_spec:
  "((fst (prepareVariables L root (Some V) w) = []
       \<and> writes (snd (prepareVariables L root (Some V) w)) = writes w) \<longleftrightarrow> V = [])
   \<and> (V \<noteq> [] \<longrightarrow>
        prepareVariables L root (Some V) w =
          ([''-var-file'', resolve L root ''garden.tfvars.json''],
           w\<lparr>writes := writes w @ [(resolve L root ''garden.tfvars.json'', stringify L V)]\<rparr>))"
  by (simp add: prepareVariables_def writeFile_def Let_def)

text \<open>A map with one variable.\<close>

theorem prepareVariables_spec_witness:
  "[(''region'', JStr ''eu'')] \<noteq> []
   \<and> prepareVariables example_lib ''/proj'' (Some [(''region'', JStr ''eu'')]) empty_world =
       ([''-var-file'', ''/proj/garden.tfvars.json''],
        \<lparr>calls = [], writes = [(''/proj/garden.tfvars.json'', ''{region}'')], logs = []\<rparr>)"
  using prepareVariables_spec [of example_lib "''/proj''" "[(''region'', JStr ''eu'')]" empty_world]
  by (simp add: example_lib_def empty_world_def)

section \<open>Applying a stack\<close>

text \<open>
  C6. When the process has been spawned and its first event that is not \<^verbatim>\<open>data\<close> is
  \<^verbatim>\<open>close\<close>: with the code 0 \<open>applyStack\<close> resolves; with any other code it rejects
  with a \<open>RuntimeError\<close> that carries the stdout and the stderr accumulated from the
  \<^verbatim>\<open>data\<close> events until then (empty for a stream that the process does not have) and
  the code.
\<close>

theorem applyStack_close:
  assumes "spawn T (calls w0)
             (applyCall version root (fst (prepareVariables L root variables w0))) = Inr proc"
    and "events proc = pre @ Close code # rest"
    and "\<forall>e\<in>set pre. is_data e"
  shows "(code = Some 0 \<longrightarrow> fst (applyStack L T root variables version w0) = Some (Inr ()))
         \<and> (code \<noteq> Some 0 \<longrightarrow>
               fst (applyStack L T root variables version w0) =
                 Some (Inl (RuntimeError
                              (''Error when applying Terraform stack:\<newline>''
                                 @ (if has_stderr proc then stderr_chunks pre else []))
                              (if has_stdout proc then stdout_chunks pre else [])
                              (if has_stderr proc then stderr_chunks pre else [])
                              code)))"
proof -
  have "fst (applyStack L T root variables version w0) =
          applyStack_promise (has_stdout proc) (has_stderr proc) [] [] (events proc)"
    by (simp add: applyStack_def case_prod_beta terraform_spawn_def assms(1) Let_def)
  then show ?thesis
    by (simp add: assms(2) applyStack_promise_data [OF assms(3)])
qed

text \<open>An apply that closes with the code 0, and one that closes with the code 1.\<close>

theorem applyStack_close_witness:
  "fst (applyStack example_lib (tool_apply (Some 0)) ''/proj'' None ''0.12.7'' empty_world) =
     Some (Inr ())
   \<and> fst (applyStack example_lib (tool_apply (Some 1)) ''/proj'' None ''0.12.7'' empty_world) =
       Some (Inl (RuntimeError ''Error when applying Terraform stack:\<newline>Error: denied''
                    ''Plan: 1 to add.'' ''Error: denied'' (Some 1)))"
  using applyStack_close [where T = "tool_apply (Some 0)" and L = example_lib
        and root = "''/proj''" and variables = None and version = "''0.12.7''"
        and ?w0.0 = empty_world and proc = "example_proc (Some 0)" and code = "Some 0"
        and pre = "[StdoutData ''Plan: 1 to add'', StderrData ''Error: '', StdoutData ''.'',
                    StderrData ''denied'']"
        and rest = "[StdoutData ''late'']"]
    applyStack_close [where T = "tool_apply (Some 1)" and L = example_lib
        and root = "''/proj''" and variables = None and version = "''0.12.7''"
        and ?w0.0 = empty_world and proc = "example_proc (Some 1)" and code = "Some 1"
        and pre = "[StdoutData ''Plan: 1 to add'', StderrData ''Error: '', StdoutData ''.'',
                    StderrData ''denied'']"
        and rest = "[StdoutData ''late'']"]
  by (simp add: tool_apply_def example_proc_def)

section \<open>Validation errors\<close>



section \<open>The module command\<close>

text \<open>
  C8. \<open>findModule\<close>, with which the module command starts, throws \<open>ParameterError\<close>
  in exactly these cases: the first argument is missing (absent, or the empty string),
  no module has that name, or the module of that name does not have the type
  \<^verbatim>\<open>terraform\<close> among its compatible types. It throws no other error.
\<close>

theorem findModule_ParameterError:
  "((\<exists>msg d. findModule L modules name = Inl (ParameterError msg d)) \<longleftrightarrow>
      (name = None \<or> name = Some ''''
       \<or> (\<exists>n. name = Some n \<and> (\<forall>m\<in>set modules. m_name m \<noteq> n))
       \<or> (\<exists>n m. name = Some n \<and> findByName modules n = Some m
                  \<and> ''terraform'' \<notin> set (compatibleTypes m))))
   \<and> (\<forall>e. findModule L modules name = Inl e \<longrightarrow> (\<exists>msg d. e = ParameterError msg d))"
proof (cases name)
  case None
  then show ?thesis by (simp add: findModule_def)
next
  case (Some n)
  show ?thesis
  proof (cases "findByName modules n")
    case None
    then have "\<forall>m\<in>set modules. m_name m \<noteq> n" by (simp add: findByName_None_iff)
    then show ?thesis using Some None by (simp add: findModule_def)
  next
    case (Some m)
    then have "\<not> (\<forall>m\<in>set modules. m_name m \<noteq> n)"
      using findByName_None_iff [of modules n] by simp
    then show ?thesis using \<open>name = Some n\<close> Some by (simp add: findModule_def)
  qed
qed

text \<open>No argument, an unknown name, a module of another type, and a Terraform module.\<close>

theorem findModule_ParameterError_witness:
  "findModule example_lib example_modules None =
     Inl (ParameterError ''The first command argument must be a module name.''
            [(''name'', JUndefined)])
   \<and> findModule example_lib example_modules (Some ''db'') =
       Inl (ParameterError ''Could not find module db.'' [])
   \<and> findModule example_lib example_modules (Some ''web'') =
       Inl (ParameterError ''Module web is not a terraform module.''
              [(''name'', JStr ''web''), (''type'', JStr ''container''),
               (''compatibleTypes'', JArr [JStr ''container''])])
   \<and> findModule example_lib example_modules (Some ''tf'') =
       Inr \<lparr>m_name = ''tf'', m_type = ''terraform'', compatibleTypes = [''terraform'']\<rparr>"
  using findModule_ParameterError [of example_lib example_modules None]
    findModule_ParameterError [of example_lib example_modules "Some ''tf''"]
  by (simp add: findModule_def findByName_def example_modules_def example_lib_def)

section \<open>Absent variables and the recoverable diagnostics\<close>

text \<open>
  C9. Called with an undefined or absent variables argument, \<open>prepareVariables\<close> does
  what it does for the empty map: it returns the empty argument list and leaves the
  world, and so the files, as they are.
\<close>

theorem prepareVariables_undefined:
  "prepareVariables L root None w = ([], w)
   \<and> prepareVariables L root None w = prepareVariables L root (Some []) w"
  by (simp add: prepareVariables_def)

theorem prepareVariables_undefined_witness:
  "prepareVariables example_lib ''/proj'' None empty_world = ([], empty_world)"
  using prepareVariables_undefined [of example_lib "''/proj''" empty_world]
  by simp

text \<open>
  C10. When the first validation returns a body with \<^verbatim>\<open>valid: false\<close>, \<open>tfValidate\<close>
  runs \<^verbatim>\<open>terraform init\<close> if and only if the summary of some diagnostic is equal, as a
  string, to "Could not satisfy plugin requirements" or to "Module not installed".
\<close>

theorem tfValidate_init_iff:
  assumes "json_validate T (calls w0)
             (validateCall tfVersion root (fst (prepareVariables L root variables w0))) = Inr res"
    and "valid res = JBool False"
  shows "(\<exists>c\<in>set (drop (length (calls w0))
                     (calls (snd (tfValidate L T tfVersion root variables w0)))).
            c_args c = [''init''])
         \<longleftrightarrow> (\<exists>d\<in>set (diagnostics res).
                summary d = ''Could not satisfy plugin requirements''
                \<or> summary d = ''Module not installed'')"
  unfolding tfValidate_calls [OF assms]
  by (simp add: Let_def validateCall_def initCall_def split: sum.split)

text \<open>A validation that reports "Module not installed".\<close>

theorem tfValidate_init_iff_witness:
  "valid module_not_installed = JBool False
   \<and> initCall ''0.12.7'' ''/proj''
       \<in> set (calls (snd (tfValidate example_lib tool_not_installed ''0.12.7'' ''/proj'' None
                           empty_world)))"
  using tfValidate_init_iff [of tool_not_installed empty_world "''0.12.7''" "''/proj''"
      example_lib None module_not_installed]
  by (simp add: tfValidate_def prepareVariables_def terraform_json_validate_def terraform_exec_def
      log_emit_def tool_not_installed_def module_not_installed_def empty_world_def Let_def)

end
